theory Spec2Isabelle
  imports Main
begin

section \<open>Python values used by StockfishGUI.py\<close>

text \<open>
  Exceptions are values. Every constructor but the last is a subclass of Python's
  \<open>Exception\<close>, so \<open>except Exception\<close> catches it. Strings are byte strings
  (UTF-8): \<open>chr\<close> of a code point above 127 is a character of several bytes, which
  the model does not build; \<open>NonAsciiCodePoint\<close> marks that edge of the model and is
  not a Python exception. The board's rows and columns are \<open>range(8)\<close>, far from it.
\<close>

datatype py_exception =
    ValueError
  | KeyError
  | IndexError
  | AttributeError
  | EngineTerminatedError
  | EngineError
  | TclError
  | RuntimeError
  | NonAsciiCodePoint

text \<open>
  \<open>sys.exit(n)\<close> raises \<open>SystemExit\<close>, which is not an \<open>Exception\<close>: no
  \<open>except Exception\<close> catches it, and it ends the program with status \<open>n\<close>. A
  call that does not return either raises an exception or exits.
\<close>

datatype sys_exit = SystemExit int

datatype stop = Raised py_exception | Exited sys_exit

definition py_ord :: "char \<Rightarrow> int" where
  "py_ord ch = of_char ch"

definition py_chr :: "int \<Rightarrow> py_exception + char" where
  "py_chr i =
     (if i < 0 \<or> 1114111 < i then Inl ValueError
      else if i \<le> 127 then Inr (char_of i)
      else Inl NonAsciiCodePoint)"

fun dec_digits :: "nat \<Rightarrow> string" where
  "dec_digits n =
     (if n < 10 then [char_of (48 + n)]
      else dec_digits (n div 10) @ [char_of (48 + n mod 10)])"

text \<open>\<open>str(i)\<close> of an integer: its decimal digits, with a minus sign when negative.\<close>

definition py_str :: "int \<Rightarrow> string" where
  "py_str i = (if i < 0 then CHR ''-'' # dec_digits (nat (- i)) else dec_digits (nat i))"

text \<open>\<open>sep.join(xs)\<close>.\<close>

fun join :: "string \<Rightarrow> string list \<Rightarrow> string" where
  "join sep [] = []"
| "join sep [x] = x"
| "join sep (x # y # ys) = x @ sep @ join sep (y # ys)"

text \<open>
  \<open>f"{n / 100:.2f}"\<close> for an integer \<open>n\<close>: the quotient with exactly two decimals.
  The float division and the rounding of the format are exact on hundredths for every
  \<open>n\<close> an engine reports (below \<open>10^15\<close> in absolute value), so the text is computed
  on the integer.
\<close>

definition format_hundredths :: "int \<Rightarrow> string" where
  "format_hundredths n =
     (let a = nat \<bar>n\<bar> in
      (if n < 0 then ''-'' else '''') @ dec_digits (a div 100) @ ''.''
        @ dec_digits (a div 10 mod 10) @ dec_digits (a mod 10))"

text \<open>\<open>s.split()\<close>: the words of \<open>s\<close> between runs of whitespace.\<close>

definition isspace :: "char \<Rightarrow> bool" where
  "isspace ch = (of_char ch \<in> {9, 10, 11, 12, 13, 28, 29, 30, 31, 32 :: nat})"

fun split_words :: "string \<Rightarrow> string \<Rightarrow> string list" where
  "split_words cur [] = (if cur = [] then [] else [cur])"
| "split_words cur (ch # rest) =
     (if isspace ch then (if cur = [] then split_words [] rest else cur # split_words [] rest)
      else split_words (cur @ [ch]) rest)"

definition py_split :: "string \<Rightarrow> string list" where
  "py_split s = split_words [] s"

text \<open>\<open>s.split(sep)\<close> for a one-character separator: never empty.\<close>

fun split_at :: "char \<Rightarrow> string \<Rightarrow> string \<Rightarrow> string list" where
  "split_at sep cur [] = [cur]"
| "split_at sep cur (ch # rest) =
     (if ch = sep then cur # split_at sep [] rest else split_at sep (cur @ [ch]) rest)"

definition py_split_on :: "char \<Rightarrow> string \<Rightarrow> string list" where
  "py_split_on sep s = split_at sep [] s"

definition isdigit :: "char \<Rightarrow> bool" where
  "isdigit ch = (48 \<le> (of_char ch :: nat) \<and> (of_char ch :: nat) \<le> 57)"

definition digit_value :: "char \<Rightarrow> nat" where
  "digit_value ch = of_char ch - 48"

section \<open>The python-chess values the program calls into\<close>

text \<open>
  The chess rules are an outside library. What the program asks of it is a record of
  functions over a type \<open>'p\<close> of positions and a type \<open>'m\<close> of moves:
  \<open>chess.Move.from_uci\<close>, \<open>Move.uci\<close>, \<open>chess.parse_square\<close>,
  \<open>Board.piece_at\<close> (as the truth value the program tests), membership in
  \<open>Board.legal_moves\<close>, the position after a move, and \<open>Board.fen\<close>.
  Every theorem holds for every such record.
\<close>

record ('p, 'm) chess_lib =
  from_uci :: "string \<Rightarrow> py_exception + 'm"
  uci :: "'m \<Rightarrow> string"
  parse_square :: "string \<Rightarrow> py_exception + nat"
  piece_at :: "'p \<Rightarrow> nat \<Rightarrow> bool"
  legal_moves :: "'p \<Rightarrow> 'm list"
  apply_move :: "'p \<Rightarrow> 'm \<Rightarrow> 'p"
  fen :: "'p \<Rightarrow> string"

text \<open>
  A \<open>chess.Board\<close>: the current position and the stack of moves played, each with
  the position it was played in (python-chess keeps \<open>move_stack\<close> and the saved
  states in two lists that \<open>push\<close> and \<open>pop\<close> extend and shorten together).
\<close>

record ('p, 'm) chess_board =
  position :: 'p
  stack :: "('m \<times> 'p) list"

definition new_board :: "'p \<Rightarrow> ('p, 'm) chess_board" where
  "new_board start = \<lparr>position = start, stack = []\<rparr>"

definition move_stack :: "('p, 'm) chess_board \<Rightarrow> 'm list" where
  "move_stack b = map fst (stack b)"

definition board_push :: "('p, 'm) chess_lib \<Rightarrow> ('p, 'm) chess_board \<Rightarrow> 'm \<Rightarrow> ('p, 'm) chess_board" where
  "board_push L b m =
     \<lparr>position = apply_move L (position b) m, stack = stack b @ [(m, position b)]\<rparr>"

definition board_pop :: "('p, 'm) chess_board \<Rightarrow> py_exception + ('p, 'm) chess_board" where
  "board_pop b =
     (if stack b = [] then Inl IndexError
      else Inr \<lparr>position = snd (last (stack b)), stack = butlast (stack b)\<rparr>)"

text \<open>
  A line of moves played from a position, each move legal where it is played; and a
  board whose position is the one its move stack reaches from \<open>start\<close> in that way.
\<close>

fun play_line :: "('p, 'm) chess_lib \<Rightarrow> 'p \<Rightarrow> 'm list \<Rightarrow> 'p option" where
  "play_line L p [] = Some p"
| "play_line L p (m # ms) =
     (if m \<in> set (legal_moves L p) then play_line L (apply_move L p m) ms else None)"

definition legal_game :: "('p, 'm) chess_lib \<Rightarrow> 'p \<Rightarrow> ('p, 'm) chess_board \<Rightarrow> bool" where
  "legal_game L start b = (play_line L start (move_stack b) = Some (position b))"

text \<open>
  Engine scores: \<open>chess.engine.Cp\<close>, \<open>Mate\<close> and \<open>MateGiven\<close>, their negation,
  and a \<open>PovScore\<close>: a score relative to the side to move, with that side.
  \<open>PovScore.white()\<close> is the score from White's point of view.
\<close>

datatype color = White | Black

datatype score = Cp int | Mate int | MateGiven

fun neg_score :: "score \<Rightarrow> score" where
  "neg_score (Cp n) = Cp (- n)"
| "neg_score (Mate n) = (if n = 0 then MateGiven else Mate (- n))"
| "neg_score MateGiven = Mate 0"

record pov_score =
  relative :: score
  turn :: color

definition pov :: "color \<Rightarrow> pov_score \<Rightarrow> score" where
  "pov c ps = (if turn ps = c then relative ps else neg_score (relative ps))"

definition white :: "pov_score \<Rightarrow> score" where
  "white ps = pov White ps"

text \<open>
  One entry of the list \<open>engine.analyse\<close> returns: a dictionary in which the keys
  \<open>"score"\<close> and \<open>"pv"\<close> may each be absent.
\<close>

record 'm info =
  info_score :: "pov_score option"
  info_pv :: "'m list option"

section \<open>Squares\<close>

text \<open>
  \<^verbatim>\<open>
  def square_to_uci(self, r, c):
      file = chr(ord("a") + c)
      rank = str(8 - r)
      return file + rank
  \<close>
\<close>

definition square_to_uci :: "int \<Rightarrow> int \<Rightarrow> py_exception + string" where
  "square_to_uci r c =
     (case py_chr (py_ord CHR ''a'' + c) of
        Inl e \<Rightarrow> Inl e
      | Inr file \<Rightarrow> (let rank = py_str (8 - r) in Inr (file # rank)))"

text \<open>The sixty-four square names, \<open>a1\<close> to \<open>h8\<close>.\<close>

definition square_names :: "string list" where
  "square_names = concat (map (\<lambda>k. map (\<lambda>f. [f, k]) ''abcdefgh'') ''12345678'')"

section \<open>The state of the program\<close>

text \<open>
  The fields of \<open>ChessGUI\<close> that the methods read and write, the module's global
  \<open>STOCKFISH_PATH\<close>, and what the program does to the world outside: the commands it
  has launched, the calls it has made on the engine, the error dialogs it has shown and
  the calls of \<open>root.destroy()\<close>. The labels of \<open>self.squares\<close> are kept by their
  text, the analysis pane \<open>self.eval_text\<close> by its content.
\<close>

datatype simple_engine = SimpleEngine string

datatype ('p, 'm) engine_call =
    Analyse "('p, 'm) chess_board" int int
  | EngineQuit

record ('p, 'm) chess_gui =
  board :: "('p, 'm) chess_board"
  engine :: "simple_engine option"
  running :: bool
  selected_square :: "string option"
  squares :: "int \<times> int \<Rightarrow> string option"
  eval_text :: string
  stockfish_path :: "string option"
  popen_calls :: "string list"
  engine_calls :: "('p, 'm) engine_call list"
  dialogs :: "(string \<times> string) list"
  root_destroy_calls :: nat

text \<open>The fields as \<open>__init__\<close> sets them (lines 36 to 40), before any widget exists.\<close>

definition new_gui :: "'p \<Rightarrow> ('p, 'm) chess_gui" where
  "new_gui start =
     \<lparr>board = new_board start, engine = None, running = False, selected_square = None,
      squares = (\<lambda>k. None), eval_text = [], stockfish_path = None, popen_calls = [],
      engine_calls = [], dialogs = [], root_destroy_calls = 0\<rparr>"

text \<open>\<open>create_widgets\<close>: one label with the text \<open>" "\<close> for every row and column in \<open>range(8)\<close>, and an empty analysis pane.\<close>

definition create_widgets :: "('p, 'm) chess_gui \<Rightarrow> ('p, 'm) chess_gui" where
  "create_widgets s =
     s\<lparr>squares := (\<lambda>(r, c). if 0 \<le> r \<and> r < 8 \<and> 0 \<le> c \<and> c < 8 then Some '' '' else None),
       eval_text := []\<rparr>"

section \<open>Locating and starting the engine\<close>

text \<open>
  What the operating system answers: whether the program is a frozen bundle
  (\<open>sys.frozen\<close>), the folder the bundle is unpacked in (\<open>sys._MEIPASS\<close>, an
  attribute that PyInstaller sets and that is absent otherwise: \<open>None\<close>), the folder
  of the script, \<open>os.path.join\<close> and \<open>os.path.exists\<close>, and
  \<open>SimpleEngine.popen_uci\<close>, which returns an engine or raises an exception
  (\<open>Inl\<close>, with the text \<open>str(e)\<close> of the exception).
\<close>

record os_env =
  sys_frozen :: bool
  sys_MEIPASS :: "string option"
  script_dir :: string
  path_join :: "string \<Rightarrow> string \<Rightarrow> string"
  path_exists :: "string \<Rightarrow> bool"
  popen_uci :: "string \<Rightarrow> string + simple_engine"

text \<open>
  \<^verbatim>\<open>
  def find_stockfish():
      if getattr(sys, 'frozen', False):
          bundle_dir = sys._MEIPASS
          bundled_sf = os.path.join(bundle_dir, "stockfish.exe")
          if os.path.exists(bundled_sf):
              return bundled_sf
      here = os.path.dirname(os.path.abspath(sys.argv[0]))
      local_sf = os.path.join(here, "stockfish.exe")
      if os.path.exists(local_sf):
          return local_sf
      messagebox.showerror("Stockfish Not Found", ...)
      sys.exit(1)
  \<close>
  The result is the dialogs shown, and the path returned or the way the call stops:
  the read of \<open>sys._MEIPASS\<close> raises \<open>AttributeError\<close> when the attribute is
  absent, and \<open>sys.exit(1)\<close> exits.
\<close>

definition not_found_message :: string where
  "not_found_message =
     ''Stockfish was not found.'' @ [CHR 0x0A]
     @ ''Please make sure '' @ [CHR 0x27] @ ''stockfish.exe'' @ [CHR 0x27]
     @ '' is in the same folder as this program.''"

text \<open>Lines 21 to 30: the search beside the script, the dialog and the exit.\<close>

definition find_beside_script :: "os_env \<Rightarrow> (string \<times> string) list \<times> (stop + string)" where
  "find_beside_script env =
     (let local_sf = path_join env (script_dir env) ''stockfish.exe''
      in if path_exists env local_sf then ([], Inr local_sf)
         else ([(''Stockfish Not Found'', not_found_message)], Inl (Exited (SystemExit 1))))"

definition find_stockfish :: "os_env \<Rightarrow> (string \<times> string) list \<times> (stop + string)" where
  "find_stockfish env =
     (if sys_frozen env then
        (case sys_MEIPASS env of
           None \<Rightarrow> ([], Inl (Raised AttributeError))
         | Some bundle_dir \<Rightarrow>
             (let bundled_sf = path_join env bundle_dir ''stockfish.exe''
              in if path_exists env bundled_sf then ([], Inr bundled_sf)
                 else find_beside_script env))
      else find_beside_script env)"

text \<open>
  \<^verbatim>\<open>
  def start_engine(self):
      global STOCKFISH_PATH
      STOCKFISH_PATH = find_stockfish()
      try:
          self.engine = chess.engine.SimpleEngine.popen_uci(STOCKFISH_PATH)
      except Exception as e:
          messagebox.showerror("Engine Error", f"Could not start Stockfish:\n{e}")
          sys.exit(1)
  \<close>
  The result is the state reached, and the way the call stops if it does not return.
  The call of \<open>find_stockfish\<close> is outside the \<open>try\<close>: what stops it stops
  \<open>start_engine\<close>.
\<close>

definition start_engine ::
  "os_env \<Rightarrow> ('p, 'm) chess_gui \<Rightarrow> ('p, 'm) chess_gui \<times> stop option" where
  "start_engine env s =
     (case find_stockfish env of
        (shown, Inl st) \<Rightarrow> (s\<lparr>dialogs := dialogs s @ shown\<rparr>, Some st)
      | (shown, Inr path) \<Rightarrow>
          (let s1 = s\<lparr>dialogs := dialogs s @ shown, stockfish_path := Some path,
                      popen_calls := popen_calls s @ [path]\<rparr>
           in case popen_uci env path of
                Inr e \<Rightarrow> (s1\<lparr>engine := Some e\<rparr>, None)
              | Inl msg \<Rightarrow>
                  (s1\<lparr>dialogs := dialogs s1
                        @ [(''Engine Error'', ''Could not start Stockfish:'' @ [CHR 0x0A] @ msg)]\<rparr>,
                   Some (Exited (SystemExit 1)))))"

text \<open>
  The engine can be launched: \<open>find_stockfish\<close> returns a file and \<open>popen_uci\<close>
  returns an engine for it. And the bundle folder is known: the program is not frozen,
  or \<open>sys._MEIPASS\<close> is there, as it is in every PyInstaller bundle.
\<close>

definition launchable :: "os_env \<Rightarrow> bool" where
  "launchable env =
     (case snd (find_stockfish env) of
        Inl st \<Rightarrow> False
      | Inr path \<Rightarrow> (case popen_uci env path of Inl msg \<Rightarrow> False | Inr e \<Rightarrow> True))"

definition bundle_known :: "os_env \<Rightarrow> bool" where
  "bundle_known env = (if sys_frozen env then sys_MEIPASS env \<noteq> None else True)"

section \<open>Drawing the board\<close>

text \<open>
  \<^verbatim>\<open>
  def get_piece_symbol(self, piece_char):
      symbols = {"P": ..., ..., "k": ...}
      return symbols.get(piece_char, "?")
  \<close>
  The twelve chess symbols U+2654 to U+265F, in UTF-8.
\<close>

definition symbols :: "(char \<times> string) list" where
  "symbols =
     [(CHR ''P'', [CHR 0xE2, CHR 0x99, CHR 0x99]), (CHR ''N'', [CHR 0xE2, CHR 0x99, CHR 0x98]),
      (CHR ''B'', [CHR 0xE2, CHR 0x99, CHR 0x97]), (CHR ''R'', [CHR 0xE2, CHR 0x99, CHR 0x96]),
      (CHR ''Q'', [CHR 0xE2, CHR 0x99, CHR 0x95]), (CHR ''K'', [CHR 0xE2, CHR 0x99, CHR 0x94]),
      (CHR ''p'', [CHR 0xE2, CHR 0x99, CHR 0x9F]), (CHR ''n'', [CHR 0xE2, CHR 0x99, CHR 0x9E]),
      (CHR ''b'', [CHR 0xE2, CHR 0x99, CHR 0x9D]), (CHR ''r'', [CHR 0xE2, CHR 0x99, CHR 0x9C]),
      (CHR ''q'', [CHR 0xE2, CHR 0x99, CHR 0x9B]), (CHR ''k'', [CHR 0xE2, CHR 0x99, CHR 0x9A])]"

definition get_piece_symbol :: "char \<Rightarrow> string" where
  "get_piece_symbol piece_char =
     (case map_of symbols piece_char of Some glyph \<Rightarrow> glyph | None \<Rightarrow> ''?'')"

text \<open>
  \<^verbatim>\<open>
  def update_board(self):
      board_fen = self.board.fen().split()[0]
      rows = board_fen.split("/")
      for r in range(8):
          row = rows[r]
          c = 0
          for ch in row:
              if ch.isdigit():
                  for _ in range(int(ch)):
                      self.squares[(r, c)].config(text=" ")
                      c += 1
              else:
                  self.squares[(r, c)].config(text=self.get_piece_symbol(ch))
                  c += 1
  \<close>
  The three loops, innermost first. Each returns the labels as it leaves them, and the
  exception raised if one is: \<open>KeyError\<close> for a label that does not exist,
  \<open>IndexError\<close> for a row that does not.
\<close>

fun blank_squares ::
  "int \<Rightarrow> nat \<Rightarrow> int \<Rightarrow> (int \<times> int \<Rightarrow> string option)
     \<Rightarrow> ((int \<times> int \<Rightarrow> string option) \<times> int) \<times> py_exception option" where
  "blank_squares r 0 c sq = ((sq, c), None)"
| "blank_squares r (Suc n) c sq =
     (case sq (r, c) of
        None \<Rightarrow> ((sq, c), Some KeyError)
      | Some old \<Rightarrow> blank_squares r n (c + 1) (sq((r, c) \<mapsto> '' '')))"

fun draw_row ::
  "int \<Rightarrow> string \<Rightarrow> int \<Rightarrow> (int \<times> int \<Rightarrow> string option)
     \<Rightarrow> (int \<times> int \<Rightarrow> string option) \<times> py_exception option" where
  "draw_row r [] c sq = (sq, None)"
| "draw_row r (ch # row) c sq =
     (if isdigit ch then
        (case blank_squares r (digit_value ch) c sq of
           ((sq', c'), Some e) \<Rightarrow> (sq', Some e)
         | ((sq', c'), None) \<Rightarrow> draw_row r row c' sq')
      else
        (case sq (r, c) of
           None \<Rightarrow> (sq, Some KeyError)
         | Some old \<Rightarrow> draw_row r row (c + 1) (sq((r, c) \<mapsto> get_piece_symbol ch))))"

fun draw_rows ::
  "string list \<Rightarrow> nat list \<Rightarrow> (int \<times> int \<Rightarrow> string option)
     \<Rightarrow> (int \<times> int \<Rightarrow> string option) \<times> py_exception option" where
  "draw_rows rows [] sq = (sq, None)"
| "draw_rows rows (r # rs) sq =
     (if r < length rows then
        (case draw_row (int r) (rows ! r) 0 sq of
           (sq', Some e) \<Rightarrow> (sq', Some e)
         | (sq', None) \<Rightarrow> draw_rows rows rs sq')
      else (sq, Some IndexError))"

definition update_board ::
  "('p, 'm) chess_lib \<Rightarrow> ('p, 'm) chess_gui \<Rightarrow> ('p, 'm) chess_gui \<times> py_exception option" where
  "update_board L s =
     (case py_split (fen L (position (board s))) of
        [] \<Rightarrow> (s, Some IndexError)
      | board_fen # others \<Rightarrow>
          (let rows = py_split_on CHR ''/'' board_fen
           in case draw_rows rows [0 ..< 8] (squares s) of
                (sq', e) \<Rightarrow> (s\<lparr>squares := sq'\<rparr>, e)))"

section \<open>Clicks, undo and quit\<close>

text \<open>
  \<^verbatim>\<open>
  def square_clicked(self, r, c):
      square = self.square_to_uci(r, c)
      if self.selected_square:
          move = chess.Move.from_uci(self.selected_square + square)
          if move in self.board.legal_moves:
              self.board.push(move)
          self.selected_square = None
      else:
          if self.board.piece_at(chess.parse_square(square)):
              self.selected_square = square
      self.update_board()
  \<close>
  \<open>self.selected_square\<close> is false when it is \<open>None\<close> or the empty string. The
  result is the state the call leaves, and the exception it raises if it does.
\<close>

definition square_clicked ::
  "('p, 'm) chess_lib \<Rightarrow> int \<Rightarrow> int \<Rightarrow> ('p, 'm) chess_gui
     \<Rightarrow> ('p, 'm) chess_gui \<times> py_exception option" where
  "square_clicked L r c s =
     (case square_to_uci r c of
        Inl e \<Rightarrow> (s, Some e)
      | Inr square \<Rightarrow>
          (let sel = (case selected_square s of None \<Rightarrow> [] | Some x \<Rightarrow> x)
           in if sel \<noteq> [] then
                (case from_uci L (sel @ square) of
                   Inl e \<Rightarrow> (s, Some e)
                 | Inr move \<Rightarrow>
                     (let s1 = (if move \<in> set (legal_moves L (position (board s)))
                                then s\<lparr>board := board_push L (board s) move\<rparr> else s)
                      in update_board L (s1\<lparr>selected_square := None\<rparr>)))
              else
                (case parse_square L square of
                   Inl e \<Rightarrow> (s, Some e)
                 | Inr sq \<Rightarrow>
                     update_board L
                       (if piece_at L (position (board s)) sq
                        then s\<lparr>selected_square := Some square\<rparr> else s))))"

text \<open>
  A sequence of clicks. Tk reports an exception raised by a callback and goes on, so
  the next click starts from the state the last one left.
\<close>

fun clicks ::
  "('p, 'm) chess_lib \<Rightarrow> (int \<times> int) list \<Rightarrow> ('p, 'm) chess_gui \<Rightarrow> ('p, 'm) chess_gui" where
  "clicks L [] s = s"
| "clicks L ((r, c) # rest) s = clicks L rest (fst (square_clicked L r c s))"

text \<open>
  \<^verbatim>\<open>
  def undo_move(self):
      if len(self.board.move_stack) > 0:
          self.board.pop()
          self.update_board()
  \<close>
\<close>

definition undo_move ::
  "('p, 'm) chess_lib \<Rightarrow> ('p, 'm) chess_gui \<Rightarrow> ('p, 'm) chess_gui \<times> py_exception option" where
  "undo_move L s =
     (if length (move_stack (board s)) > 0 then
        (case board_pop (board s) of
           Inl e \<Rightarrow> (s, Some e)
         | Inr b \<Rightarrow> update_board L (s\<lparr>board := b\<rparr>))
      else (s, None))"

text \<open>
  \<^verbatim>\<open>
  def quit_game(self):
      self.running = False
      if self.engine:
          self.engine.quit()
      self.root.destroy()
  \<close>
  What \<open>engine.quit()\<close> and \<open>root.destroy()\<close> do is the library's: \<open>qr\<close> and
  \<open>dr\<close> are the exceptions they raise, \<open>None\<close> when they return.
\<close>

definition quit_game ::
  "py_exception option \<Rightarrow> py_exception option \<Rightarrow> ('p, 'm) chess_gui
     \<Rightarrow> ('p, 'm) chess_gui \<times> py_exception option" where
  "quit_game qr dr s =
     (let s1 = s\<lparr>running := False\<rparr>;
          (s2, raised) =
            (case engine s1 of
               None \<Rightarrow> (s1, None)
             | Some e \<Rightarrow> (s1\<lparr>engine_calls := engine_calls s1 @ [EngineQuit]\<rparr>, qr))
      in case raised of
           Some exn \<Rightarrow> (s2, Some exn)
         | None \<Rightarrow> (s2\<lparr>root_destroy_calls := Suc (root_destroy_calls s2)\<rparr>, dr))"

section \<open>The analysis loop\<close>

text \<open>
  \<^verbatim>\<open>
  def start_analysis(self):
      self.running = True
      self.analysis_thread = threading.Thread(target=self.analyze, daemon=True)
      self.analysis_thread.start()
  \<close>
  The thread it starts runs \<open>analyze\<close>, below.
\<close>

definition start_analysis :: "('p, 'm) chess_gui \<Rightarrow> ('p, 'm) chess_gui" where
  "start_analysis s = s\<lparr>running := True\<rparr>"

text \<open>
  The text of one evaluation (lines 121 to 124): \<open>is_mate()\<close> holds of \<open>Mate\<close> and
  \<open>MateGiven\<close>, whose \<open>mate()\<close> is the number of moves (0 for \<open>MateGiven\<close>);
  \<open>score()\<close> of \<open>Cp n\<close> is \<open>n\<close>.
\<close>

fun eval_str :: "score \<Rightarrow> string" where
  "eval_str (Cp n) = format_hundredths n"
| "eval_str (Mate n) = ''Mate in '' @ py_str n"
| "eval_str MateGiven = ''Mate in '' @ py_str 0"

text \<open>
  \<^verbatim>\<open>
  lines = []
  for idx, info in enumerate(result, start=1):
      score = info["score"].white()
      if score.is_mate():
          eval_str = f"Mate in {score.mate()}"
      else:
          eval_str = f"{score.score() / 100:.2f}"
      move_line = " ".join([m.uci() for m in info.get("pv", [])])
      lines.append(f"PV{idx}: {eval_str} | {move_line}")
  \<close>
  \<open>info["score"]\<close> raises \<open>KeyError\<close> when the key is absent.
\<close>

definition pv_line :: "('m \<Rightarrow> string) \<Rightarrow> int \<Rightarrow> pov_score \<Rightarrow> 'm list \<Rightarrow> string" where
  "pv_line u idx ps pv =
     (let score = white ps;
          move_line = join '' '' (map u pv)
      in ''PV'' @ py_str idx @ '': '' @ eval_str score @ '' | '' @ move_line)"

fun build_lines :: "('m \<Rightarrow> string) \<Rightarrow> int \<Rightarrow> 'm info list \<Rightarrow> py_exception + string list" where
  "build_lines u idx [] = Inr []"
| "build_lines u idx (info # rest) =
     (case info_score info of
        None \<Rightarrow> Inl KeyError
      | Some ps \<Rightarrow>
          (case build_lines u (idx + 1) rest of
             Inl e \<Rightarrow> Inl e
           | Inr lines \<Rightarrow>
               Inr (pv_line u idx ps (case info_pv info of None \<Rightarrow> [] | Some pv \<Rightarrow> pv) # lines)))"

text \<open>
  The loop runs beside the user interface, which writes \<open>self.running\<close> and
  \<open>self.board\<close> meanwhile and may destroy the window. One cycle of the loop is given
  what it reads and receives: the value of \<open>self.running\<close> at the top of the loop,
  the board it passes to the engine, what \<open>engine.analyse\<close> does, raise or return
  its list, and what the two calls on the analysis pane do, \<open>eval_text.delete\<close> and
  \<open>eval_text.insert\<close>: each returns (\<open>None\<close>) or raises, as Tk does once the
  window is destroyed.
\<close>

record ('p, 'm) cycle =
  seen_running :: bool
  seen_board :: "('p, 'm) chess_board"
  reply :: "py_exception + 'm info list"
  tk_delete :: "py_exception option"
  tk_insert :: "py_exception option"

text \<open>
  \<^verbatim>\<open>
  try:
      result = self.engine.analyse(self.board, chess.engine.Limit(depth=12), multipv=3)
      lines = [] ...
      time.sleep(2)
      self.eval_text.delete("1.0", tk.END)
      self.eval_text.insert(tk.END, "\n".join(lines))
  \<close>
  The body of the \<open>try\<close>: the state it leaves and the exception it raises, if any.
  With no engine, \<open>self.engine.analyse\<close> raises \<open>AttributeError\<close>. A
  \<open>delete\<close> that raises leaves the pane as it was; an \<open>insert\<close> that raises
  leaves it empty, as the \<open>delete\<close> before it made it.
\<close>

definition analyze_try ::
  "('p, 'm) chess_lib \<Rightarrow> ('p, 'm) cycle \<Rightarrow> ('p, 'm) chess_gui
     \<Rightarrow> ('p, 'm) chess_gui \<times> py_exception option" where
  "analyze_try L c s =
     (case engine s of
        None \<Rightarrow> (s, Some AttributeError)
      | Some e \<Rightarrow>
          (let s1 = s\<lparr>engine_calls := engine_calls s @ [Analyse (seen_board c) 12 3]\<rparr>
           in case reply c of
                Inl exn \<Rightarrow> (s1, Some exn)
              | Inr result \<Rightarrow>
                  (case build_lines (uci L) 1 result of
                     Inl exn \<Rightarrow> (s1, Some exn)
                   | Inr lines \<Rightarrow>
                       (case tk_delete c of
                          Some exn \<Rightarrow> (s1, Some exn)
                        | None \<Rightarrow>
                            (case tk_insert c of
                               Some exn \<Rightarrow> (s1\<lparr>eval_text := []\<rparr>, Some exn)
                             | None \<Rightarrow> (s1\<lparr>eval_text := join [CHR 0x0A] lines\<rparr>, None))))))"

text \<open>\<open>except Exception: pass\<close>: whatever the body raised is dropped.\<close>

definition analyze_body ::
  "('p, 'm) chess_lib \<Rightarrow> ('p, 'm) cycle \<Rightarrow> ('p, 'm) chess_gui \<Rightarrow> ('p, 'm) chess_gui" where
  "analyze_body L c s = fst (analyze_try L c s)"

text \<open>
  \<^verbatim>\<open>
  def analyze(self):
      while self.running:
          try: ...
          except Exception:
              pass
  \<close>
  The loop over the cycles it is given: it ends when it reads \<open>self.running\<close> false,
  and otherwise runs as long as there are cycles.
\<close>

fun analyze ::
  "('p, 'm) chess_lib \<Rightarrow> ('p, 'm) cycle list \<Rightarrow> ('p, 'm) chess_gui \<Rightarrow> ('p, 'm) chess_gui" where
  "analyze L [] s = s"
| "analyze L (c # cs) s = (if seen_running c then analyze L cs (analyze_body L c s) else s)"

text \<open>The cycles of a run that the loop executes: those before it reads \<open>self.running\<close> false.\<close>

definition executed :: "('p, 'm) cycle list \<Rightarrow> ('p, 'm) cycle list" where
  "executed cs = takeWhile seen_running cs"






text \<open>
  The analysis requests among the calls made on the engine: the boards they were made
  for, and their depth limits and numbers of lines.
\<close>

fun requested :: "('p, 'm) engine_call list \<Rightarrow> ('p, 'm) chess_board list" where
  "requested [] = []"
| "requested (Analyse b depth multipv # calls) = b # requested calls"
| "requested (EngineQuit # calls) = requested calls"

fun limits :: "('p, 'm) engine_call list \<Rightarrow> (int \<times> int) list" where
  "limits [] = []"
| "limits (Analyse b depth multipv # calls) = (depth, multipv) # limits calls"
| "limits (EngineQuit # calls) = limits calls"

section \<open>Concrete values for the examples\<close>

text \<open>
  A small stand-in for the chess library, on which the theorems are run: a position is
  the list of the moves played, a move is its UCI text, White may open with \<open>e2e4\<close> or
  \<open>d2d4\<close>, and Black may answer \<open>e2e4\<close> with \<open>e7e5\<close>. As in python-chess,
  \<open>from_uci\<close> raises on a text that is not two different squares.
\<close>

definition demo_lib :: "(string list, string) chess_lib" where
  "demo_lib =
     \<lparr>from_uci = (\<lambda>u. if length u = 4 \<and> take 2 u \<noteq> drop 2 u then Inr u else Inl ValueError),
      uci = (\<lambda>m. m),
      parse_square =
        (\<lambda>name. if name \<in> set square_names
                 then Inr (length (takeWhile (\<lambda>n. n \<noteq> name) square_names))
                 else Inl ValueError),
      piece_at = (\<lambda>p sq. sq < 16 \<or> 48 \<le> sq),
      legal_moves =
        (\<lambda>p. if p = [] then [''e2e4'', ''d2d4''] else if p = [''e2e4''] then [''e7e5''] else []),
      apply_move = (\<lambda>p m. p @ [m]),
      fen = (\<lambda>p. ''rnbqkbnr/pppppppp/8/8/8/8/PPPPPPPP/RNBQKBNR w KQkq - 0 1'')\<rparr>"

text \<open>The program after a successful start: widgets made, an engine open, the loop running.\<close>

definition demo_gui :: "(string list, string) chess_gui" where
  "demo_gui =
     (create_widgets (new_gui []))
       \<lparr>engine := Some (SimpleEngine ''stockfish.exe''), running := True\<rparr>"

text \<open>
  Three cycles of the loop. In the first the engine reports 30 centipawns for White,
  who is to move; in the second, after \<open>e2e4\<close>, 35 centipawns for Black, who is to
  move; in the third the engine has died and the call raises.
\<close>

definition cycle_start :: "(string list, string) cycle" where
  "cycle_start =
     \<lparr>seen_running = True, seen_board = new_board [],
      reply = Inr [\<lparr>info_score = Some \<lparr>relative = Cp 30, turn = White\<rparr>,
                    info_pv = Some [''e2e4'', ''e7e5'']\<rparr>],
      tk_delete = None, tk_insert = None\<rparr>"

definition cycle_e4 :: "(string list, string) cycle" where
  "cycle_e4 =
     \<lparr>seen_running = True, seen_board = board_push demo_lib (new_board []) ''e2e4'',
      reply = Inr [\<lparr>info_score = Some \<lparr>relative = Cp 35, turn = Black\<rparr>,
                    info_pv = Some [''e7e5'', ''g1f3'']\<rparr>],
      tk_delete = None, tk_insert = None\<rparr>"

definition cycle_dead :: "(string list, string) cycle" where
  "cycle_dead =
     \<lparr>seen_running = True, seen_board = new_board [], reply = Inl EngineTerminatedError,
      tk_delete = None, tk_insert = None\<rparr>"


text \<open>
  Three machines on which the engine cannot be launched: one with no
  \<open>stockfish.exe\<close> anywhere, one where the file is there and the process dies as it
  starts, and one where the program was frozen by a tool that sets \<open>sys.frozen\<close> and
  no \<open>sys._MEIPASS\<close>, with no \<open>stockfish.exe\<close> anywhere.
\<close>

definition env_missing :: os_env where
  "env_missing =
     \<lparr>sys_frozen = False, sys_MEIPASS = None, script_dir = ''C:/chess'',
      path_join = (\<lambda>a b. a @ ''/'' @ b), path_exists = (\<lambda>p. False),
      popen_uci = (\<lambda>p. Inr (SimpleEngine p))\<rparr>"

definition env_broken :: os_env where
  "env_broken =
     \<lparr>sys_frozen = True, sys_MEIPASS = Some ''C:/Temp/_MEI1'', script_dir = ''C:/chess'',
      path_join = (\<lambda>a b. a @ ''/'' @ b), path_exists = (\<lambda>p. p = ''C:/chess/stockfish.exe''),
      popen_uci = (\<lambda>p. Inl ''engine process died unexpectedly (exit code: 1)'')\<rparr>"

definition env_frozen_bare :: os_env where
  "env_frozen_bare = env_missing\<lparr>sys_frozen := True\<rparr>"

section \<open>Properties of the squares\<close>

lemma file_chars: "map (\<lambda>c. py_chr (py_ord CHR ''a'' + c)) [0, 1, 2, 3, 4, 5, 6, 7] = map Inr ''abcdefgh''"
  by code_simp

lemma rank_strs: "map (\<lambda>r. py_str (8 - r)) [0, 1, 2, 3, 4, 5, 6, 7] = map (\<lambda>k. [k]) ''87654321''"
  by code_simp

lemma grid_index: "0 \<le> (i::int) \<Longrightarrow> i \<le> 7 \<Longrightarrow> i \<in> set [0, 1, 2, 3, 4, 5, 6, 7]"
  by (simp; arith)

lemma py_chr_file:
  assumes "0 \<le> c" "c \<le> 7"
  shows "py_chr (py_ord CHR ''a'' + c) = Inr (''abcdefgh'' ! nat c)"
proof -
  have "c \<in> set [0, 1, 2, 3, 4, 5, 6, 7]" using assms by (rule grid_index)
  then show ?thesis using file_chars by auto
qed

lemma py_str_rank:
  assumes "0 \<le> r" "r \<le> 7"
  shows "py_str (8 - r) = [''87654321'' ! nat r]"
proof -
  have "r \<in> set [0, 1, 2, 3, 4, 5, 6, 7]" using assms by (rule grid_index)
  then show ?thesis using rank_strs by auto
qed

lemma square_to_uci_grid:
  assumes "0 \<le> r" "r \<le> 7" "0 \<le> c" "c \<le> 7"
  shows "square_to_uci r c = Inr [''abcdefgh'' ! nat c, ''87654321'' ! nat r]"
  using assms by (simp add: square_to_uci_def py_chr_file py_str_rank)

lemma in_grid:
  "f \<in> set fs \<Longrightarrow> k \<in> set ks \<Longrightarrow> [f, k] \<in> set (concat (map (\<lambda>k. map (\<lambda>f. [f, k]) fs) ks))"
  by auto

lemma in_square_names:
  "f \<in> set ''abcdefgh'' \<Longrightarrow> k \<in> set ''12345678'' \<Longrightarrow> [f, k] \<in> set square_names"
  unfolding square_names_def by (rule in_grid)

lemma rank_set: "set ''87654321'' = set ''12345678''"
  by (simp add: insert_commute)

lemma nth_in_names:
  assumes "i < 8" "j < 8"
  shows "[''abcdefgh'' ! i, ''87654321'' ! j] \<in> set square_names"
proof -
  have "''abcdefgh'' ! i \<in> set ''abcdefgh''" using assms(1) by (intro nth_mem) simp
  moreover have "''87654321'' ! j \<in> set ''87654321''" using assms(2) by (intro nth_mem) simp
  ultimately show ?thesis unfolding rank_set by (rule in_square_names)
qed

lemma file_inj: "i < 8 \<Longrightarrow> j < 8 \<Longrightarrow> ''abcdefgh'' ! i = ''abcdefgh'' ! j \<Longrightarrow> i = j"
  by (rule iffD1 [OF nth_eq_iff_index_eq]) simp_all

lemma rank_inj: "i < 8 \<Longrightarrow> j < 8 \<Longrightarrow> ''87654321'' ! i = ''87654321'' ! j \<Longrightarrow> i = j"
  by (rule iffD1 [OF nth_eq_iff_index_eq]) simp_all

text \<open>
  Claim C10. For every row \<open>r\<close> and column \<open>c\<close> of the board
  (\<open>0 \<le> r, c \<le> 7\<close>), \<open>square_to_uci r c\<close> returns without raising; its
  result is the two-character name whose file is \<open>chr(ord('a') + c)\<close>, the
  \<open>c\<close>-th letter of \<open>abcdefgh\<close>, and whose rank is \<open>str(8 - r)\<close>, the digit
  \<open>8 - r\<close>; that name is one of the sixty-four square names \<open>a1\<close> to \<open>h8\<close>; and
  no other row and column of the board give the same name.
\<close>

theorem square_to_uci_names:
  assumes "0 \<le> r" "r \<le> 7" "0 \<le> c" "c \<le> 7"
  shows "py_chr (py_ord CHR ''a'' + c) = Inr (''abcdefgh'' ! nat c)
         \<and> py_str (8 - r) = [''87654321'' ! nat r]
         \<and> square_to_uci r c = Inr [''abcdefgh'' ! nat c, ''87654321'' ! nat r]
         \<and> [''abcdefgh'' ! nat c, ''87654321'' ! nat r] \<in> set square_names
         \<and> (\<forall>r' c'. 0 \<le> r' \<and> r' \<le> 7 \<and> 0 \<le> c' \<and> c' \<le> 7
               \<and> square_to_uci r' c' = square_to_uci r c \<longrightarrow> r' = r \<and> c' = c)"
proof -
  have inj: "r' = r \<and> c' = c"
    if h: "0 \<le> r'" "r' \<le> 7" "0 \<le> c'" "c' \<le> 7" "square_to_uci r' c' = square_to_uci r c"
    for r' c'
  proof -
    from h assms have "''abcdefgh'' ! nat c' = ''abcdefgh'' ! nat c"
      and "''87654321'' ! nat r' = ''87654321'' ! nat r"
      by (simp_all add: square_to_uci_grid)
    moreover have "nat c' < 8" "nat c < 8" "nat r' < 8" "nat r < 8" using h assms by simp_all
    ultimately have "nat c' = nat c" "nat r' = nat r"
      by (blast intro: file_inj rank_inj)+
    then show ?thesis using h assms by arith
  qed
  have names: "[''abcdefgh'' ! nat c, ''87654321'' ! nat r] \<in> set square_names"
    using assms by (intro nth_in_names) simp_all
  have fl: "py_chr (py_ord CHR ''a'' + c) = Inr (''abcdefgh'' ! nat c)"
    using assms by (simp add: py_chr_file)
  have rk: "py_str (8 - r) = [''87654321'' ! nat r]"
    using assms by (simp add: py_str_rank)
  have sq: "square_to_uci r c = Inr [''abcdefgh'' ! nat c, ''87654321'' ! nat r]"
    using assms by (simp add: square_to_uci_grid)
  from fl rk sq names inj show ?thesis by blast
qed

text \<open>The theorem at row 6, column 4: the square \<open>e2\<close>, which is not the name of row 0, column 0.\<close>

theorem square_to_uci_names_witness:
  "square_to_uci 6 4 = Inr ''e2'' \<and> ''e2'' \<in> set square_names
   \<and> square_to_uci 0 0 \<noteq> square_to_uci 6 4"
proof -
  have g: "(0::int) \<le> 6" "(6::int) \<le> 7" "(0::int) \<le> 4" "(4::int) \<le> 7" by simp_all
  note t = square_to_uci_names [OF g]
  have e: "[''abcdefgh'' ! nat 4, ''87654321'' ! nat 6] = ''e2''" by simp
  from t have a: "square_to_uci 6 4 = Inr ''e2''" unfolding e by (rule conjunct1 [OF conjunct2 [OF conjunct2]])
  from t have b: "''e2'' \<in> set square_names" unfolding e by blast
  from t have "0 \<le> (0::int) \<and> (0::int) \<le> 7 \<and> 0 \<le> (0::int) \<and> (0::int) \<le> 7
           \<and> square_to_uci 0 0 = square_to_uci 6 4 \<longrightarrow> (0::int) = 6 \<and> (0::int) = 4"
    by blast
  then have "square_to_uci 0 0 \<noteq> square_to_uci 6 4" by simp
  with a b show ?thesis by simp
qed

section \<open>Properties of the analysis loop\<close>

lemma analyze_body_engine [simp]: "engine (analyze_body L c s) = engine s"
  by (simp add: analyze_body_def analyze_try_def Let_def split: option.splits sum.splits)

lemma analyze_body_dialogs [simp]: "dialogs (analyze_body L c s) = dialogs s"
  by (simp add: analyze_body_def analyze_try_def Let_def split: option.splits sum.splits)

lemma analyze_body_running [simp]: "running (analyze_body L c s) = running s"
  by (simp add: analyze_body_def analyze_try_def Let_def split: option.splits sum.splits)

lemma analyze_body_calls:
  "engine_calls (analyze_body L c s) =
     engine_calls s @ (if engine s = None then [] else [Analyse (seen_board c) 12 3])"
  by (simp add: analyze_body_def analyze_try_def Let_def split: option.splits sum.splits)


lemma analyze_engine [simp]: "engine (analyze L cs s) = engine s"
  by (induction cs arbitrary: s) simp_all

lemma analyze_dialogs [simp]: "dialogs (analyze L cs s) = dialogs s"
  by (induction cs arbitrary: s) simp_all

lemma analyze_running [simp]: "running (analyze L cs s) = running s"
  by (induction cs arbitrary: s) simp_all

text \<open>Every executed cycle makes one call on the engine, whatever the engine answers.\<close>

lemma analyze_calls:
  "engine_calls (analyze L cs s) =
     engine_calls s
       @ (if engine s = None then [] else map (\<lambda>c. Analyse (seen_board c) 12 3) (executed cs))"
  by (induction cs arbitrary: s) (simp_all add: executed_def analyze_body_calls)


lemma requested_append: "requested (xs @ ys) = requested xs @ requested ys"
  by (induction xs rule: requested.induct) simp_all

lemma limits_append: "limits (xs @ ys) = limits xs @ limits ys"
  by (induction xs rule: limits.induct) simp_all

lemma requested_analyse: "requested (map (\<lambda>c. Analyse (seen_board c) d m) cs) = map seen_board cs"
  by (induction cs) simp_all

lemma limits_analyse:
  "limits (map (\<lambda>c. Analyse (seen_board c) d m) cs) = replicate (length cs) (d, m)"
  by (induction cs) simp_all

lemma build_lines_nth:
  "build_lines u idx infos = Inr lines \<Longrightarrow> k < length infos \<Longrightarrow>
   info_score (infos ! k) = Some ps \<Longrightarrow>
   lines ! k = pv_line u (idx + int k) ps (case info_pv (infos ! k) of None \<Rightarrow> [] | Some pv \<Rightarrow> pv)"
proof (induction infos arbitrary: idx lines k)
  case Nil
  then show ?case by simp
next
  case (Cons info rest)
  from Cons.prems(1) obtain ps0 ls where
    s0: "info_score info = Some ps0" and
    r: "build_lines u (idx + 1) rest = Inr ls" and
    l: "lines = pv_line u idx ps0 (case info_pv info of None \<Rightarrow> [] | Some pv \<Rightarrow> pv) # ls"
    by (auto split: option.splits sum.splits)
  show ?case
  proof (cases k)
    case 0
    then show ?thesis using Cons.prems(3) s0 l by simp
  next
    case (Suc j)
    then have "j < length rest" "info_score (rest ! j) = Some ps" using Cons.prems by simp_all
    from Cons.IH [OF r this] show ?thesis using Suc l by (simp add: add.assoc)
  qed
qed

text \<open>The examples, evaluated.\<close>

lemma demo_gui_fields:
  "engine demo_gui = Some (SimpleEngine ''stockfish.exe'')"
  "engine_calls demo_gui = []"
  "dialogs demo_gui = []"
  "running demo_gui = True"
  "eval_text demo_gui = []"
  "board demo_gui = new_board []"
  "selected_square demo_gui = None"
  by (simp_all add: demo_gui_def create_widgets_def new_gui_def)























text \<open>
  Claim C2, as the program has it. The evaluation written in a line is the engine's
  score from White's point of view (\<open>info["score"].white()\<close>): the score relative to
  the side to move when White is to move, and its negation when Black is to move. Line
  \<open>k\<close> of the lines built from a result is \<open>PV\<close>, the number \<open>idx + k\<close>, that
  evaluation and the moves of the principal variation.
\<close>

theorem published_score_is_whites:
  assumes "build_lines u idx infos = Inr lines"
    and "k < length infos"
    and "info_score (infos ! k) = Some ps"
  shows "lines ! k =
           ''PV'' @ py_str (idx + int k) @ '': ''
           @ eval_str (if turn ps = White then relative ps else neg_score (relative ps))
           @ '' | '' @ join '' '' (map u (case info_pv (infos ! k) of None \<Rightarrow> [] | Some pv \<Rightarrow> pv))"
  using build_lines_nth [OF assms] by (simp add: pv_line_def white_def pov_def)

text \<open>Black to move and 35 centipawns ahead: the line says \<open>-0.35\<close>.\<close>

theorem published_score_is_whites_witness:
  "[''PV1: -0.35 | e7e5 g1f3''] ! 0 =
     ''PV'' @ py_str (1 + int 0) @ '': ''
     @ eval_str (if turn \<lparr>relative = Cp 35, turn = Black\<rparr> = White
                 then relative \<lparr>relative = Cp 35, turn = Black\<rparr>
                 else neg_score (relative \<lparr>relative = Cp 35, turn = Black\<rparr>))
     @ '' | '' @ join '' '' (map (\<lambda>m. m) [''e7e5'', ''g1f3''])"
proof -
  let ?infos = "[\<lparr>info_score = Some \<lparr>relative = Cp 35, turn = Black\<rparr>,
                  info_pv = Some [''e7e5'', ''g1f3'']\<rparr>]"
  have b: "build_lines (\<lambda>m. m) 1 ?infos = Inr [''PV1: -0.35 | e7e5 g1f3'']" by code_simp
  have k: "(0::nat) < length ?infos" by simp
  have i: "info_score (?infos ! 0) = Some \<lparr>relative = Cp 35, turn = Black\<rparr>" by simp
  from published_score_is_whites [OF b k i] show ?thesis by simp
qed

text \<open>
  Against claim C2 as the specification states it. Black is to move and the engine
  scores the position 35 centipawns in Black's favour. From the side to move the value
  is \<open>0.35\<close>; the line the program builds says \<open>-0.35\<close>.
\<close>

theorem side_to_move_counterexample:
  "build_lines (\<lambda>m. m) 1
     [\<lparr>info_score = Some \<lparr>relative = Cp 35, turn = Black\<rparr>, info_pv = Some [''e7e5'', ''g1f3'']\<rparr>]
     = Inr [''PV1: -0.35 | e7e5 g1f3'']
   \<and> eval_str (relative \<lparr>relative = Cp 35, turn = Black\<rparr>) = ''0.35''"
  by code_simp

text \<open>
  Claim C3, as the program has it. When \<open>engine.analyse\<close> raises, the body of the
  \<open>try\<close> ends with that exception after the request was made, and \<open>except
  Exception: pass\<close> drops it: the state is the one before the cycle but for the call
  made on the engine. Over any run, whatever the engine answers, the loop shows no
  dialog, leaves \<open>self.running\<close> as it is and makes one call on the engine in every
  cycle it executes: it goes on to the next request after a failure and stops only when
  it reads \<open>self.running\<close> false.
\<close>

theorem analyze_drops_failures:
  assumes "engine s = Some e"
  shows "(reply c = Inl exn \<longrightarrow>
            analyze_try L c s
              = (s\<lparr>engine_calls := engine_calls s @ [Analyse (seen_board c) 12 3]\<rparr>, Some exn)
          \<and> analyze_body L c s
              = s\<lparr>engine_calls := engine_calls s @ [Analyse (seen_board c) 12 3]\<rparr>)
         \<and> dialogs (analyze L cs s) = dialogs s
         \<and> running (analyze L cs s) = running s
         \<and> length (engine_calls (analyze L cs s)) = length (engine_calls s) + length (executed cs)"
  using assms by (simp add: analyze_calls analyze_body_def analyze_try_def)

text \<open>The engine is dead for two cycles: two calls, no dialog, still running.\<close>

theorem analyze_drops_failures_witness:
  "analyze_try demo_lib cycle_dead demo_gui
     = (demo_gui\<lparr>engine_calls := [Analyse (new_board []) 12 3]\<rparr>, Some EngineTerminatedError)
   \<and> analyze_body demo_lib cycle_dead demo_gui
     = demo_gui\<lparr>engine_calls := [Analyse (new_board []) 12 3]\<rparr>
   \<and> dialogs (analyze demo_lib [cycle_dead, cycle_dead] demo_gui) = []
   \<and> running (analyze demo_lib [cycle_dead, cycle_dead] demo_gui) = True
   \<and> length (engine_calls (analyze demo_lib [cycle_dead, cycle_dead] demo_gui)) = 2"
  using analyze_drops_failures [of demo_gui "SimpleEngine ''stockfish.exe''" cycle_dead
      EngineTerminatedError demo_lib "[cycle_dead, cycle_dead]"]
  by (simp add: demo_gui_fields executed_def cycle_dead_def del: analyze.simps)

text \<open>
  Against claim C3 as the specification states it. The engine has died and
  \<open>engine.analyse\<close> raises \<open>EngineTerminatedError\<close> in two cycles in a row. The
  loop has not halted after the first: it has made a second request; it has reported
  nothing; and \<open>self.running\<close> is still true.
\<close>

theorem engine_death_counterexample:
  "snd (analyze_try demo_lib cycle_dead demo_gui) = Some EngineTerminatedError
   \<and> engine_calls (analyze demo_lib [cycle_dead, cycle_dead] demo_gui)
       = [Analyse (new_board []) 12 3, Analyse (new_board []) 12 3]
   \<and> dialogs (analyze demo_lib [cycle_dead, cycle_dead] demo_gui) = []
   \<and> running (analyze demo_lib [cycle_dead, cycle_dead] demo_gui) = True"
  by (simp add: analyze_calls analyze_try_def demo_gui_fields executed_def cycle_dead_def
      del: analyze.simps)

text \<open>
  Claim C4, as the program has it. The program keeps no change-token: in every cycle
  that begins with \<open>self.running\<close> true, the loop makes one analysis request, for the
  board as it is then, whether or not the position has changed since the last request.
  The boards requested over a run are the boards of its executed cycles, in order; when
  the board is the same \<open>b\<close> in every cycle, \<open>b\<close> is requested once per cycle.
\<close>

theorem analyze_requests_every_cycle:
  assumes "engine s = Some e"
  shows "requested (engine_calls (analyze L cs s))
           = requested (engine_calls s) @ map seen_board (executed cs)
         \<and> ((\<forall>c \<in> set cs. seen_running c \<and> seen_board c = b) \<longrightarrow>
              requested (engine_calls (analyze L cs s))
                = requested (engine_calls s) @ replicate (length cs) b)"
proof (intro conjI impI)
  show a: "requested (engine_calls (analyze L cs s))
           = requested (engine_calls s) @ map seen_board (executed cs)"
    using assms by (simp add: analyze_calls requested_append requested_analyse)
  assume h: "\<forall>c \<in> set cs. seen_running c \<and> seen_board c = b"
  then have "executed cs = cs"
    unfolding executed_def by (simp add: takeWhile_eq_all_conv)
  moreover from h have "map seen_board cs = replicate (length cs) b"
    by (simp add: list_eq_iff_nth_eq)
  ultimately show "requested (engine_calls (analyze L cs s))
                = requested (engine_calls s) @ replicate (length cs) b"
    using a by simp
qed

text \<open>Two cycles, before and after \<open>e2e4\<close>: each board is requested.\<close>

theorem analyze_requests_every_cycle_witness:
  "requested (engine_calls (analyze demo_lib [cycle_start, cycle_e4] demo_gui))
     = [new_board [], board_push demo_lib (new_board []) ''e2e4'']"
proof -
  have e: "engine demo_gui = Some (SimpleEngine ''stockfish.exe'')"
    by (rule demo_gui_fields)
  have "requested (engine_calls (analyze demo_lib [cycle_start, cycle_e4] demo_gui))
          = requested (engine_calls demo_gui) @ map seen_board (executed [cycle_start, cycle_e4])"
    by (rule conjunct1 [OF analyze_requests_every_cycle [OF e]])
  also have "\<dots> = [new_board [], board_push demo_lib (new_board []) ''e2e4'']"
    by (simp add: demo_gui_fields executed_def cycle_start_def cycle_e4_def)
  finally show ?thesis .
qed

text \<open>
  Against claim C4 as the specification states it. Two cycles read the same board, the
  start position: the position has not changed, and the loop has made two requests for it.
\<close>

theorem unchanged_position_counterexample:
  "requested (engine_calls (analyze demo_lib [cycle_start, cycle_start] demo_gui))
     = [new_board [], new_board []]
   \<and> seen_board cycle_start = new_board []"
  by (simp add: analyze_calls requested_analyse demo_gui_fields executed_def cycle_start_def
      del: analyze.simps)

text \<open>
  Claim C5. Every analysis request the loop makes has the depth limit 12 and asks for
  3 lines: over any run, the depth limits and line counts of the analysis requests
  among the calls on the engine are those there were before, followed by \<open>(12, 3)\<close>
  once for every executed cycle (none when there is no engine to call).
\<close>

theorem analyze_fixed_limits:
  "limits (engine_calls (analyze L cs s)) =
     limits (engine_calls s)
       @ replicate (if engine s = None then 0 else length (executed cs)) (12, 3)"
  by (simp add: analyze_calls limits_append limits_analyse)

text \<open>Three cycles, the last with a dead engine: three requests of depth 12 for 3 lines.\<close>

theorem analyze_fixed_limits_witness:
  "limits (engine_calls (analyze demo_lib [cycle_start, cycle_e4, cycle_dead] demo_gui))
     = [(12, 3), (12, 3), (12, 3)]"
  using analyze_fixed_limits [of demo_lib "[cycle_start, cycle_e4, cycle_dead]" demo_gui]
  by (simp add: demo_gui_fields executed_def cycle_start_def cycle_e4_def cycle_dead_def
      del: analyze.simps)

section \<open>Properties of the engine's start and of quitting\<close>

lemma not_launchable_missing: "\<not> launchable env_missing" "bundle_known env_missing"
  by (simp_all add: launchable_def bundle_known_def find_stockfish_def find_beside_script_def
      env_missing_def)

lemma not_launchable_broken: "\<not> launchable env_broken" "bundle_known env_broken"
  by (simp_all add: launchable_def bundle_known_def find_stockfish_def find_beside_script_def
      env_broken_def)

lemma find_stockfish_cases:
  assumes "bundle_known env"
  shows "find_stockfish env = ([(''Stockfish Not Found'', not_found_message)], Inl (Exited (SystemExit 1)))
         \<or> (\<exists>path. find_stockfish env = ([], Inr path))"
  using assms
  by (auto simp: bundle_known_def find_stockfish_def find_beside_script_def Let_def
      split: option.splits if_splits)

text \<open>
  Claim C6, as the program has it. If the engine cannot be launched (no
  \<open>stockfish.exe\<close> is found, or \<open>popen_uci\<close> raises for the file found),
  \<open>start_engine\<close> does not fail with a typed error handed to its caller: it shows
  one error dialog, \<open>Stockfish Not Found\<close> or \<open>Engine Error\<close> with the text of
  the exception, and calls \<open>sys.exit(1)\<close>, which ends the program. No engine is set,
  and the launch is not retried: \<open>popen_uci\<close> is called once when a file was found
  and not at all otherwise. This is for a program that is not frozen or has
  \<open>sys._MEIPASS\<close>, as every PyInstaller bundle has.
\<close>

theorem start_engine_exits:
  assumes "\<not> launchable env" and "bundle_known env"
  shows "snd (start_engine env s) = Some (Exited (SystemExit 1))
         \<and> engine (fst (start_engine env s)) = engine s
         \<and> length (dialogs (fst (start_engine env s))) = length (dialogs s) + 1
         \<and> length (popen_calls (fst (start_engine env s))) \<le> length (popen_calls s) + 1
         \<and> (case snd (find_stockfish env) of
               Inl st \<Rightarrow>
                 dialogs (fst (start_engine env s))
                   = dialogs s @ [(''Stockfish Not Found'', not_found_message)]
                 \<and> popen_calls (fst (start_engine env s)) = popen_calls s
             | Inr path \<Rightarrow>
                 (\<exists>msg. popen_uci env path = Inl msg
                    \<and> dialogs (fst (start_engine env s))
                        = dialogs s
                          @ [(''Engine Error'', ''Could not start Stockfish:'' @ [CHR 0x0A] @ msg)])
                 \<and> popen_calls (fst (start_engine env s)) = popen_calls s @ [path])"
  using find_stockfish_cases [OF assms(2)] assms(1)
  by (auto simp: launchable_def start_engine_def Let_def split: sum.splits)

text \<open>The theorem on the machine without the file and on the machine where the process dies.\<close>

theorem start_engine_exits_witness:
  "snd (start_engine env_missing (new_gui [] :: (string list, string) chess_gui))
     = Some (Exited (SystemExit 1))
   \<and> engine (fst (start_engine env_missing (new_gui [] :: (string list, string) chess_gui)))
     = None
   \<and> dialogs (fst (start_engine env_missing (new_gui [] :: (string list, string) chess_gui)))
     = [(''Stockfish Not Found'', not_found_message)]
   \<and> popen_calls (fst (start_engine env_missing (new_gui [] :: (string list, string) chess_gui)))
     = []
   \<and> snd (start_engine env_broken (new_gui [] :: (string list, string) chess_gui))
     = Some (Exited (SystemExit 1))
   \<and> engine (fst (start_engine env_broken (new_gui [] :: (string list, string) chess_gui)))
     = None
   \<and> length (dialogs (fst (start_engine env_broken
        (new_gui [] :: (string list, string) chess_gui)))) = 1
   \<and> popen_calls (fst (start_engine env_broken (new_gui [] :: (string list, string) chess_gui)))
     = [''C:/chess/stockfish.exe'']"
proof -
  let ?s = "new_gui [] :: (string list, string) chess_gui"
  have f: "snd (find_stockfish env_missing) = Inl (Exited (SystemExit 1))"
    "snd (find_stockfish env_broken) = Inr ''C:/chess/stockfish.exe''"
    by (simp_all add: find_stockfish_def find_beside_script_def env_missing_def env_broken_def)
  have n: "engine ?s = None" "dialogs ?s = []" "popen_calls ?s = []"
    by (simp_all add: new_gui_def)
  note a = start_engine_exits [OF not_launchable_missing, of ?s]
  note b = start_engine_exits [OF not_launchable_broken, of ?s]
  from a b show ?thesis unfolding f n by simp
qed

text \<open>
  Against claim C6 as the specification states it. With no \<open>stockfish.exe\<close>
  anywhere, \<open>start_engine\<close> stops with \<open>SystemExit(1)\<close>: the program exits with
  status 1 after its own dialog, and no error of a type naming the engine is handed to
  the caller. And when the program is frozen by a tool that sets no
  \<open>sys._MEIPASS\<close>, the same machine gives \<open>AttributeError\<close> from line 16, with no
  dialog at all.
\<close>

theorem engine_unavailable_counterexample:
  "snd (start_engine env_missing (new_gui [] :: (string list, string) chess_gui))
     = Some (Exited (SystemExit 1))
   \<and> snd (start_engine env_frozen_bare (new_gui [] :: (string list, string) chess_gui))
     = Some (Raised AttributeError)
   \<and> dialogs (fst (start_engine env_frozen_bare (new_gui [] :: (string list, string) chess_gui)))
     = []"
  by (simp add: start_engine_def find_stockfish_def find_beside_script_def env_missing_def
      env_frozen_bare_def new_gui_def)

text \<open>What one call of \<open>quit_game\<close> does, whatever the library calls do.\<close>

lemma quit_game_state:
  "fst (quit_game qr dr s) =
     s\<lparr>running := False,
       engine_calls := engine_calls s @ (if engine s = None then [] else [EngineQuit]),
       root_destroy_calls :=
         root_destroy_calls s + (if engine s \<noteq> None \<and> qr \<noteq> None then 0 else 1)\<rparr>"
  "snd (quit_game qr dr s) = (if engine s \<noteq> None \<and> qr \<noteq> None then qr else dr)"
  by (auto simp: quit_game_def Let_def split: option.splits)

text \<open>
  Claim C7, as the program has it. \<open>quit_game\<close> sets \<open>self.running\<close> to false,
  calls \<open>engine.quit()\<close> whenever \<open>self.engine\<close> is set and, only if that call
  returns, \<open>root.destroy()\<close>; it raises what these calls raise. It never clears
  \<open>self.engine\<close>: the handle is not released. A second call therefore calls
  \<open>engine.quit()\<close> again, on the engine that was told to quit, and succeeds only if
  that call and \<open>root.destroy()\<close> on the destroyed window both return; the fields of
  the program other than the record of the calls made are then as after the first call.
\<close>

theorem quit_game_keeps_engine:
  "fst (quit_game qr dr s) =
     s\<lparr>running := False,
       engine_calls := engine_calls s @ (if engine s = None then [] else [EngineQuit]),
       root_destroy_calls :=
         root_destroy_calls s + (if engine s \<noteq> None \<and> qr \<noteq> None then 0 else 1)\<rparr>
   \<and> snd (quit_game qr dr s) = (if engine s \<noteq> None \<and> qr \<noteq> None then qr else dr)
   \<and> engine (fst (quit_game qr dr s)) = engine s
   \<and> (engine s = Some e \<longrightarrow>
         engine_calls (fst (quit_game qr' dr' (fst (quit_game qr dr s))))
           = engine_calls s @ [EngineQuit, EngineQuit]
       \<and> snd (quit_game qr' dr' (fst (quit_game qr dr s)))
           = (case qr' of Some exn \<Rightarrow> Some exn | None \<Rightarrow> dr'))
   \<and> (fst (quit_game qr' dr' (fst (quit_game qr dr s))))
        \<lparr>engine_calls := calls, root_destroy_calls := n\<rparr>
       = (fst (quit_game qr dr s))\<lparr>engine_calls := calls, root_destroy_calls := n\<rparr>"
  by (auto simp: quit_game_state split: option.splits)

text \<open>
  Quitting the running program: the first call with both library calls returning, the
  second with \<open>engine.quit()\<close> raising.
\<close>

theorem quit_game_keeps_engine_witness:
  "fst (quit_game None None demo_gui)
     = demo_gui\<lparr>running := False, engine_calls := [EngineQuit], root_destroy_calls := 1\<rparr>
   \<and> snd (quit_game None None demo_gui) = None
   \<and> engine (fst (quit_game None None demo_gui)) = Some (SimpleEngine ''stockfish.exe'')
   \<and> engine_calls (fst (quit_game (Some EngineTerminatedError) None
        (fst (quit_game None None demo_gui)))) = [EngineQuit, EngineQuit]
   \<and> snd (quit_game (Some EngineTerminatedError) None (fst (quit_game None None demo_gui)))
       = Some EngineTerminatedError"
proof -
  note t = quit_game_keeps_engine [where qr = None and dr = None and s = demo_gui
      and e = "SimpleEngine ''stockfish.exe''" and qr' = "Some EngineTerminatedError"
      and dr' = None and calls = "[]" and n = 0]
  have r: "root_destroy_calls demo_gui = 0"
    by (simp add: demo_gui_def create_widgets_def new_gui_def)
  have a: "fst (quit_game None None demo_gui)
     = demo_gui\<lparr>running := False, engine_calls := [EngineQuit], root_destroy_calls := 1\<rparr>"
    using conjunct1 [OF t] by (simp add: demo_gui_fields r)
  have b: "snd (quit_game None None demo_gui) = None"
    using conjunct1 [OF conjunct2 [OF t]] by simp
  have c: "engine (fst (quit_game None None demo_gui)) = Some (SimpleEngine ''stockfish.exe'')"
    using conjunct1 [OF conjunct2 [OF conjunct2 [OF t]]] by (simp add: demo_gui_fields)
  have d: "engine_calls (fst (quit_game (Some EngineTerminatedError) None
        (fst (quit_game None None demo_gui)))) = [EngineQuit, EngineQuit]
     \<and> snd (quit_game (Some EngineTerminatedError) None (fst (quit_game None None demo_gui)))
       = Some EngineTerminatedError"
    using conjunct1 [OF conjunct2 [OF conjunct2 [OF conjunct2 [OF t]]]]
    by (simp add: demo_gui_fields)
  from a b c d show ?thesis by blast
qed

text \<open>
  Against claim C7 as the specification states it. After a shutdown that completed,
  \<open>self.engine\<close> is still set: the handle was not released. So the second call
  calls \<open>engine.quit()\<close> again; python-chess raises \<open>EngineTerminatedError\<close> for
  an engine that has exited, and the second call raises it. Were that call to return,
  \<open>root.destroy()\<close> would be called on the destroyed window, where Tk raises
  \<open>TclError\<close>, and the second call would raise that.
\<close>

theorem quit_twice_counterexample:
  "engine (fst (quit_game None None demo_gui)) = Some (SimpleEngine ''stockfish.exe'')
   \<and> snd (quit_game (Some EngineTerminatedError) None (fst (quit_game None None demo_gui)))
       = Some EngineTerminatedError
   \<and> snd (quit_game None (Some TclError) (fst (quit_game None None demo_gui)))
       = Some TclError"
  by (simp add: quit_game_state demo_gui_fields)

section \<open>Properties of clicks and of undo\<close>

text \<open>\<open>update_board\<close> writes the labels only, whether it returns or raises.\<close>

lemma update_board_frame:
  "board (fst (update_board L s)) = board s"
  "selected_square (fst (update_board L s)) = selected_square s"
  by (simp_all add: update_board_def Let_def split: list.splits prod.splits)

lemma play_line_append:
  "play_line L p (ms @ [m]) =
     (case play_line L p ms of
        None \<Rightarrow> None
      | Some q \<Rightarrow> if m \<in> set (legal_moves L q) then Some (apply_move L q m) else None)"
  by (induction ms arbitrary: p) simp_all

lemma legal_game_new: "legal_game L start (new_board start)"
  by (simp add: legal_game_def new_board_def move_stack_def)

lemma legal_game_push:
  "legal_game L start b \<Longrightarrow> m \<in> set (legal_moves L (position b)) \<Longrightarrow>
   legal_game L start (board_push L b m)"
  by (simp add: legal_game_def board_push_def move_stack_def play_line_append)

lemma square_clicked_board:
  "board (fst (square_clicked L r c s)) = board s
   \<or> (\<exists>m \<in> set (legal_moves L (position (board s))).
         board (fst (square_clicked L r c s)) = board_push L (board s) m)"
  by (auto simp: square_clicked_def Let_def update_board_frame split: sum.splits option.splits)

lemma square_clicked_legal:
  "legal_game L start (board s) \<Longrightarrow> legal_game L start (board (fst (square_clicked L r c s)))"
  using square_clicked_board [of L r c s] by (auto intro: legal_game_push)

lemma clicks_legal:
  "legal_game L start (board s) \<Longrightarrow> legal_game L start (board (clicks L cs s))"
proof (induction cs arbitrary: s)
  case Nil
  then show ?case by simp
next
  case (Cons rc cs)
  obtain r c where rc: "rc = (r, c)" by (cases rc)
  from Cons.prems have "legal_game L start (board (fst (square_clicked L r c s)))"
    by (rule square_clicked_legal)
  then show ?case unfolding rc by (simp add: Cons.IH)
qed

lemma click_select:
  assumes "selected_square s = None" "square_to_uci r c = Inr sq"
    "parse_square L sq = Inr k" "piece_at L (position (board s)) k"
  shows "board (fst (square_clicked L r c s)) = board s"
    and "selected_square (fst (square_clicked L r c s)) = Some sq"
  using assms by (simp_all add: square_clicked_def Let_def update_board_frame)

lemma square_clicked_illegal:
  assumes "selected_square s = Some sel" "sel \<noteq> []" "square_to_uci r c = Inr sq"
    "from_uci L (sel @ sq) = Inr m" "m \<notin> set (legal_moves L (position (board s)))"
  shows "board (fst (square_clicked L r c s)) = board s
         \<and> selected_square (fst (square_clicked L r c s)) = None"
  using assms by (simp add: square_clicked_def Let_def update_board_frame)

lemma square_clicked_no_move:
  assumes "selected_square s = Some sel" "sel \<noteq> []" "square_to_uci r c = Inr sq"
    "from_uci L (sel @ sq) = Inl exn"
  shows "square_clicked L r c s = (s, Some exn)"
  using assms by (simp add: square_clicked_def Let_def)

text \<open>
  What holds of the clicks for every chess library: after any sequence of clicks from
  the initial board, the board is a position reached from the start by
  legal moves; a click leaves the board as it is or pushes a move that is legal in the
  current position; and a second click that makes, with the selected square, a move
  \<open>from_uci\<close> returns and that is not legal leaves the board as it is and clears the
  selection.
\<close>

lemma clicks_keep_legal_game:
  "legal_game L start (board (clicks L cs (s0\<lparr>board := new_board start\<rparr>)))
   \<and> (board (fst (square_clicked L r c s)) = board s
      \<or> (\<exists>m \<in> set (legal_moves L (position (board s))).
            board (fst (square_clicked L r c s)) = board_push L (board s) m))
   \<and> (selected_square s = Some sel \<and> sel \<noteq> [] \<and> square_to_uci r c = Inr sq
        \<and> from_uci L (sel @ sq) = Inr m \<and> m \<notin> set (legal_moves L (position (board s)))
      \<longrightarrow> board (fst (square_clicked L r c s)) = board s
          \<and> selected_square (fst (square_clicked L r c s)) = None)"
proof (intro conjI impI)
  show "legal_game L start (board (clicks L cs (s0\<lparr>board := new_board start\<rparr>)))"
    by (rule clicks_legal) (simp add: legal_game_new)
  show "board (fst (square_clicked L r c s)) = board s
      \<or> (\<exists>m \<in> set (legal_moves L (position (board s))).
            board (fst (square_clicked L r c s)) = board_push L (board s) m)"
    by (rule square_clicked_board)
next
  assume h: "selected_square s = Some sel \<and> sel \<noteq> [] \<and> square_to_uci r c = Inr sq
        \<and> from_uci L (sel @ sq) = Inr m \<and> m \<notin> set (legal_moves L (position (board s)))"
  then show "board (fst (square_clicked L r c s)) = board s"
    and "selected_square (fst (square_clicked L r c s)) = None"
    using square_clicked_illegal [of s sel r c sq L m] by simp_all
qed

lemma demo_square_e2: "square_to_uci 6 4 = Inr ''e2''"
  by code_simp

lemma demo_parse_e2: "parse_square demo_lib ''e2'' = Inr 12"
  by code_simp

text \<open>
  Claim C8, at the input where the program departs from it. The user clicks the square
  \<open>e2\<close> (row 6, column 4), which holds a pawn and is selected, and clicks it again.
  The two clicks make the text \<open>e2e2\<close>, which is no legal move; python-chess's
  \<open>Move.from_uci\<close> raises on it (the stand-in library does the same), line 148 is
  not reached, and the second click leaves the selection where it was and raises,
  where the claim has the selection cleared. The board is unchanged, as the claim says.
\<close>

theorem same_square_click_keeps_selection:
  "selected_square (fst (square_clicked demo_lib 6 4 demo_gui)) = Some ''e2''
   \<and> from_uci demo_lib (''e2'' @ ''e2'') = Inl ValueError
   \<and> square_clicked demo_lib 6 4 (fst (square_clicked demo_lib 6 4 demo_gui))
       = (fst (square_clicked demo_lib 6 4 demo_gui), Some ValueError)
   \<and> selected_square (fst (square_clicked demo_lib 6 4
        (fst (square_clicked demo_lib 6 4 demo_gui)))) = Some ''e2''
   \<and> board (fst (square_clicked demo_lib 6 4
        (fst (square_clicked demo_lib 6 4 demo_gui)))) = new_board []"
proof -
  let ?s1 = "fst (square_clicked demo_lib 6 4 demo_gui)"
  have p: "piece_at demo_lib (position (board demo_gui)) 12" by (simp add: demo_lib_def)
  have q1: "selected_square ?s1 = Some ''e2''" and b1: "board ?s1 = new_board []"
    using click_select [of demo_gui 6 4 "''e2''" demo_lib 12] p
    by (simp_all add: demo_gui_fields demo_square_e2 demo_parse_e2)
  have f: "from_uci demo_lib (''e2'' @ ''e2'') = Inl ValueError" by (simp add: demo_lib_def)
  have c: "square_clicked demo_lib 6 4 ?s1 = (?s1, Some ValueError)"
    by (rule square_clicked_no_move [OF q1 _ demo_square_e2 f]) simp
  from q1 b1 f c show ?thesis by simp
qed

text \<open>
  Claim C9. Calling \<open>undo_move\<close> when no move has been played leaves the whole
  state, the board in it, as it is and raises nothing. When moves have been played, it
  removes the last one and nothing else: the board after it has the position the last
  move was played in and the stack of moves without its last entry, so the moves are
  those before without the last; in particular a move just pushed is taken back.
\<close>

theorem undo_move_pops:
  "(move_stack (board s) = [] \<longrightarrow> undo_move L s = (s, None))
   \<and> (move_stack (board s) \<noteq> [] \<longrightarrow>
        board (fst (undo_move L s))
          = \<lparr>position = snd (last (stack (board s))), stack = butlast (stack (board s))\<rparr>
      \<and> move_stack (board (fst (undo_move L s))) = butlast (move_stack (board s))
      \<and> move_stack (board s)
          = move_stack (board (fst (undo_move L s))) @ [last (move_stack (board s))])
   \<and> board (fst (undo_move L (s\<lparr>board := board_push L b m\<rparr>))) = b"
proof (intro conjI impI)
  show "undo_move L s = (s, None)" if "move_stack (board s) = []"
    using that by (simp add: undo_move_def)
  show "board (fst (undo_move L (s\<lparr>board := board_push L b m\<rparr>))) = b"
    by (simp add: undo_move_def move_stack_def board_pop_def board_push_def update_board_frame)
next
  assume n: "move_stack (board s) \<noteq> []"
  then have k: "stack (board s) \<noteq> []" by (simp add: move_stack_def)
  show b: "board (fst (undo_move L s))
      = \<lparr>position = snd (last (stack (board s))), stack = butlast (stack (board s))\<rparr>"
    using k by (simp add: undo_move_def move_stack_def board_pop_def update_board_frame)
  show m: "move_stack (board (fst (undo_move L s))) = butlast (move_stack (board s))"
    unfolding b by (simp add: move_stack_def map_butlast)
  show "move_stack (board s)
      = move_stack (board (fst (undo_move L s))) @ [last (move_stack (board s))]"
    unfolding m using n by simp
qed

text \<open>Undo on the initial board, and undo after \<open>e2e4\<close>.\<close>

theorem undo_move_pops_witness:
  "undo_move demo_lib demo_gui = (demo_gui, None)
   \<and> board (fst (undo_move demo_lib
        (demo_gui\<lparr>board := \<lparr>position = [''e2e4''], stack = [(''e2e4'', [])]\<rparr>\<rparr>)))
       = \<lparr>position = [], stack = []\<rparr>
   \<and> move_stack (board (fst (undo_move demo_lib
        (demo_gui\<lparr>board := \<lparr>position = [''e2e4''], stack = [(''e2e4'', [])]\<rparr>\<rparr>)))) = []
   \<and> board (fst (undo_move demo_lib
        (demo_gui\<lparr>board := board_push demo_lib (new_board []) ''e2e4''\<rparr>))) = new_board []"
proof -
  let ?s = "demo_gui\<lparr>board := \<lparr>position = [''e2e4''], stack = [(''e2e4'', [])]\<rparr>\<rparr>"
  have a: "undo_move demo_lib demo_gui = (demo_gui, None)"
    using undo_move_pops [where s = demo_gui and L = demo_lib]
    by (simp add: demo_gui_fields move_stack_def new_board_def)
  have b: "board (fst (undo_move demo_lib ?s)) = \<lparr>position = [], stack = []\<rparr>
      \<and> move_stack (board (fst (undo_move demo_lib ?s))) = []"
    using undo_move_pops [where s = ?s and L = demo_lib]
    by (simp add: move_stack_def)
  have c: "board (fst (undo_move demo_lib
        (demo_gui\<lparr>board := board_push demo_lib (new_board []) ''e2e4''\<rparr>))) = new_board []"
    using undo_move_pops [where s = demo_gui and L = demo_lib and m = "''e2e4''"
        and b = "new_board []"]
    by blast
  from a b c show ?thesis by (simp add: move_stack_def)
qed

end
